theory Spec2Isabelle
  imports Complex_Main
begin

section \<open>Space Strike: the Game component, its controller and the score storage\<close>

text \<open>
  The development embeds the simulation code of the \<open>Game\<close> view (the variant built on
  \<open>GameController\<close>), the factory methods of \<open>GameController\<close> it calls, the
  \<open>endGame\<close>/\<open>incrementScore\<close> reducers of \<open>gameSlice\<close> and the
  \<open>gameStorage\<close> utilities.

  Conventions of the embedding:
  \<^item> a JavaScript \<open>number\<close> that holds a quantity (health, damage, speed, coordinates,
    seconds) is a \<open>real\<close>; counters and millisecond time stamps (lives, score, points,
    \<open>Date.now()\<close>, timer delays) are \<open>int\<close>;
  \<^item> a React state cell (\<open>useState\<close>) and a ref (\<open>useRef\<close>) are fields of the record
    \<open>game\<close>; a functional update \<open>setX(prev => ...)\<close> reads the field it writes;
  \<^item> a function declared in the component body reads the state \<^emph>\<open>constants\<close> of the render
    that created it (\<open>score\<close>, \<open>isPaused\<close>, \<open>gameOver\<close>) and the settings. Those captured
    values are the record \<open>closure\<close>, an explicit parameter of every such function.
    Refs (\<open>playerRef.current\<close>, \<open>enemiesRef.current\<close>, ...) are always read live;
  \<^item> \<open>setTimeout\<close> puts an action and its due time into the queue \<open>timers\<close>;
    \<open>elapse\<close> lets time pass and runs what is due;
  \<^item> rendering (meshes, materials, blinking, particles of an explosion) is left out: of
    a Three.js object only the simulation data attached to it is kept.
\<close>

subsection \<open>Settings\<close>

datatype difficulty = Easy | Medium | Hard

record settings =
  shipSpeed :: real
  shipTorque :: real
  fireSpeed :: real
  fireRate :: real
  fireStrength :: real
  horizontalSpeed :: real
  difficulty :: difficulty

text \<open>\<open>initialState\<close> of \<open>settingsSlice\<close>.\<close>

definition initialSettings :: settings where
  "initialSettings =
     \<lparr>shipSpeed = 5, shipTorque = 0.05, fireSpeed = 10, fireRate = 1.5, fireStrength = 1,
      horizontalSpeed = 3, difficulty = Medium\<rparr>"

subsection \<open>Vectors and entities\<close>

record vec3 =
  vec_x :: real
  vec_y :: real
  vec_z :: real

definition Vector3 :: "real \<Rightarrow> real \<Rightarrow> real \<Rightarrow> vec3" where
  "Vector3 a b c = \<lparr>vec_x = a, vec_y = b, vec_z = c\<rparr>"

definition vadd :: "vec3 \<Rightarrow> vec3 \<Rightarrow> vec3" where
  "vadd u v = Vector3 (vec_x u + vec_x v) (vec_y u + vec_y v) (vec_z u + vec_z v)"

definition multiplyScalar :: "vec3 \<Rightarrow> real \<Rightarrow> vec3" where
  "multiplyScalar v k = Vector3 (vec_x v * k) (vec_y v * k) (vec_z v * k)"

definition vlength :: "vec3 \<Rightarrow> real" where
  "vlength v = sqrt (vec_x v * vec_x v + vec_y v * vec_y v + vec_z v * vec_z v)"

text \<open>Three.js \<open>normalize\<close> divides by \<open>length() || 1\<close>.\<close>

definition normalize :: "vec3 \<Rightarrow> vec3" where
  "normalize v = multiplyScalar v (1 / (if vlength v = 0 then 1 else vlength v))"

definition distanceTo :: "vec3 \<Rightarrow> vec3 \<Rightarrow> real" where
  "distanceTo u v =
     sqrt ((vec_x u - vec_x v) * (vec_x u - vec_x v)
         + (vec_y u - vec_y v) * (vec_y u - vec_y v)
         + (vec_z u - vec_z v) * (vec_z u - vec_z v))"

text \<open>
  The component only ever writes \<open>rotation.z\<close>, so the Euler angles are \<open>(0, 0, rz)\<close> and
  \<open>applyEuler\<close> on the vector \<open>(0, 1, 0)\<close> is the rotation about the z axis.
\<close>

definition forward :: "real \<Rightarrow> vec3" where
  "forward rz = Vector3 (- sin rz) (cos rz) 0"

record enemy =
  e_position :: vec3
  e_velocity :: vec3
  e_health :: real
  e_points :: int

record projectile =
  p_position :: vec3
  p_velocity :: vec3
  p_damage :: real
  p_lifetime :: real

subsection \<open>Persistent storage (\<open>gameStorage.ts\<close>)\<close>

record GameData =
  highScore :: int
  lastPlayed :: int
  totalGamesPlayed :: int
  gd_difficulty :: string
  gd_soundEnabled :: bool

text \<open>
  \<open>localStorage\<close> holds two keys: the JSON record under \<open>space-strike-data\<close> (absent or
  unreadable is \<open>None\<close>) and the plain number under \<open>highScore\<close>.
\<close>

record storage =
  spaceStrikeData :: "GameData option"
  highScoreItem :: "int option"

definition defaultGameData :: GameData where
  "defaultGameData =
     \<lparr>highScore = 0, lastPlayed = 0, totalGamesPlayed = 0,
      gd_difficulty = ''medium'', gd_soundEnabled = True\<rparr>"

definition loadGameData :: "storage \<Rightarrow> GameData" where
  "loadGameData ls = (case spaceStrikeData ls of Some d \<Rightarrow> d | None \<Rightarrow> defaultGameData)"

text \<open>
  \<open>saveGameData(data)\<close> merges a partial record into the loaded one
  (\<open>{ ...existingData, ...data }\<close>); the partial record is given as the update of the
  fields it holds.
\<close>

definition saveGameData :: "(GameData \<Rightarrow> GameData) \<Rightarrow> storage \<Rightarrow> storage" where
  "saveGameData dat ls =
     (let existingData = loadGameData ls;
          updatedData = dat existingData
      in ls\<lparr>spaceStrikeData := Some updatedData\<rparr>)"

text \<open>\<open>updateHighScore(score)\<close>; \<open>now\<close> is the value of \<open>Date.now()\<close>.\<close>

definition updateHighScore :: "int \<Rightarrow> int \<Rightarrow> storage \<Rightarrow> storage" where
  "updateHighScore scr now ls =
     (let gameData = loadGameData ls
      in if scr > highScore gameData
         then (saveGameData (\<lambda>d. d\<lparr>highScore := scr, lastPlayed := now\<rparr>) ls)
                \<lparr>highScoreItem := Some scr\<rparr>
         else saveGameData (\<lambda>d. d\<lparr>lastPlayed := now\<rparr>) ls)"

text \<open>A sequence of calls, each with its score and its time stamp.\<close>

fun updateHighScores :: "(int \<times> int) list \<Rightarrow> storage \<Rightarrow> storage" where
  "updateHighScores [] ls = ls"
| "updateHighScores ((scr, now) # cs) ls = updateHighScores cs (updateHighScore scr now ls)"

text \<open>The high score that a reader of the storage sees.\<close>

definition persistedHighScore :: "storage \<Rightarrow> int" where
  "persistedHighScore ls = highScore (loadGameData ls)"

subsection \<open>The Redux game slice (the part the component dispatches to)\<close>

record gameSlice =
  r_isRunning :: bool
  r_score :: int
  r_highScore :: int
  r_gameOver :: bool

text \<open>The \<open>endGame\<close> reducer also writes the \<open>highScore\<close> item of \<open>localStorage\<close>.\<close>

definition reduxEndGame :: "gameSlice \<times> storage \<Rightarrow> gameSlice \<times> storage" where
  "reduxEndGame rs =
     (let st = (fst rs)\<lparr>r_isRunning := False, r_gameOver := True\<rparr>
      in if r_score st > r_highScore st
         then (st\<lparr>r_highScore := r_score st\<rparr>, (snd rs)\<lparr>highScoreItem := Some (r_score st)\<rparr>)
         else (st, snd rs))"

definition incrementScore :: "int \<Rightarrow> gameSlice \<Rightarrow> gameSlice" where
  "incrementScore n st = st\<lparr>r_score := r_score st + n\<rparr>"

subsection \<open>Closures, timers and the state of the component\<close>

record closure =
  c_score :: int
  c_isPaused :: bool
  c_gameOver :: bool
  c_settings :: settings

datatype timer_action =
    EndGame closure
  | RestoreHealth
  | ClearInvincible

record game =
  score :: int
  isPaused :: bool
  playerHealth :: real
  playerLives :: int
  gameOver :: bool
  gameController :: bool
  shipControl :: "vec3 option"
  position :: vec3
  rotation_z :: real
  velocity :: vec3
  lastFireTime :: int
  isInvincible :: bool
  projectiles :: "projectile list"
  enemies :: "enemy list"
  effects :: "vec3 list"
  key_w :: bool
  key_a :: bool
  key_s :: bool
  key_d :: bool
  key_space :: bool
  clock :: int
  timers :: "(int \<times> timer_action) list"
  localStorage :: storage
  redux :: gameSlice

text \<open>
  \<open>setTimeout(f, delay)\<close>: the queue is kept in firing order, a new timer going behind
  the ones that are due no later.
\<close>

fun enqueue :: "int \<times> timer_action \<Rightarrow> (int \<times> timer_action) list \<Rightarrow> (int \<times> timer_action) list" where
  "enqueue t [] = [t]"
| "enqueue t (u # us) = (if fst t < fst u then t # u # us else u # enqueue t us)"

definition setTimeout :: "timer_action \<Rightarrow> int \<Rightarrow> game \<Rightarrow> game" where
  "setTimeout f delay g = g\<lparr>timers := enqueue (clock g + delay, f) (timers g)\<rparr>"

subsection \<open>\<open>damagePlayer\<close> and \<open>endGame\<close>\<close>

definition endGame :: "closure \<Rightarrow> game \<Rightarrow> game" where
  "endGame c g =
     (let g1 = g\<lparr>gameOver := True, isPaused := True, playerLives := 0\<rparr>;
          rs = reduxEndGame (redux g1, localStorage g1);
          g2 = g1\<lparr>redux := fst rs, localStorage := snd rs\<rparr>
      in g2\<lparr>localStorage := updateHighScore (c_score c) (clock g2) (localStorage g2)\<rparr>)"

text \<open>
  The body of the \<open>setPlayerLives\<close> updater, with the timer it schedules, and the body of
  the \<open>setPlayerHealth\<close> updater around it.
\<close>

definition loseLife :: "closure \<Rightarrow> game \<Rightarrow> game" where
  "loseLife c g =
     (let newLives = playerLives g - 1;
          g1 = (if newLives \<le> 0 then setTimeout (EndGame c) 50 g
                else setTimeout RestoreHealth 500 g)
      in g1\<lparr>playerLives := newLives\<rparr>)"

definition damagePlayer :: "closure \<Rightarrow> real \<Rightarrow> game \<Rightarrow> game" where
  "damagePlayer c amount g =
     (if isInvincible g \<or> c_gameOver c then g
      else
        let newHealth = max 0 (playerHealth g - amount);
            g1 = (if newHealth = 0 then loseLife c g else g);
            g2 = g1\<lparr>playerHealth := newHealth\<rparr>;
            g3 = g2\<lparr>isInvincible := True\<rparr>
        in setTimeout ClearInvincible 1000 g3)"

text \<open>What a timer does when it fires.\<close>

fun fire :: "timer_action \<Rightarrow> game \<Rightarrow> game" where
  "fire (EndGame c) g = endGame c g"
| "fire RestoreHealth g = g\<lparr>playerHealth := 100\<rparr>"
| "fire ClearInvincible g = g\<lparr>isInvincible := False\<rparr>"

text \<open>
  Time passes until \<open>t\<close>: the timers due by then fire in order, each at its due time.
  No timer action schedules another timer, so the queue is walked once.
\<close>

fun runTimers :: "int \<Rightarrow> (int \<times> timer_action) list \<Rightarrow> game \<Rightarrow> game" where
  "runTimers t [] g = g\<lparr>timers := []\<rparr>"
| "runTimers t (u # us) g =
     (if fst u \<le> t then runTimers t us (fire (snd u) (g\<lparr>clock := fst u, timers := us\<rparr>))
      else g\<lparr>timers := u # us\<rparr>)"

definition elapse :: "int \<Rightarrow> game \<Rightarrow> game" where
  "elapse dt g = (runTimers (clock g + dt) (timers g) g)\<lparr>clock := clock g + dt\<rparr>"

subsection \<open>Factory methods of \<open>GameController\<close>\<close>

text \<open>
  \<open>createProjectile(position, direction, speed, damage = 1, lifetime = 2000)\<close> and
  \<open>createEnemy(position, velocity, health = 10, points = 100)\<close>: the simulation data of
  the object that is returned.
\<close>

definition createProjectile :: "vec3 \<Rightarrow> vec3 \<Rightarrow> real \<Rightarrow> real \<Rightarrow> real \<Rightarrow> projectile" where
  "createProjectile pos direction speed damage lifetime =
     \<lparr>p_position = pos, p_velocity = multiplyScalar (normalize direction) speed,
      p_damage = damage, p_lifetime = lifetime\<rparr>"

definition createEnemy :: "vec3 \<Rightarrow> vec3 \<Rightarrow> real \<Rightarrow> int \<Rightarrow> enemy" where
  "createEnemy pos vel health points =
     \<lparr>e_position = pos, e_velocity = vel, e_health = health, e_points = points\<rparr>"

definition checkCollision :: "vec3 \<Rightarrow> vec3 \<Rightarrow> real \<Rightarrow> real \<Rightarrow> bool" where
  "checkCollision p1 p2 radius1 radius2 = (distanceTo p1 p2 < radius1 + radius2)"

subsection \<open>Firing and spawning\<close>

definition fireProjectile :: "closure \<Rightarrow> game \<Rightarrow> game" where
  "fireProjectile c g =
     (if gameController g \<and> shipControl g \<noteq> None
      then g\<lparr>projectiles := projectiles g @
                [createProjectile (position g) (forward (rotation_z g))
                   (fireSpeed (c_settings c)) (fireStrength (c_settings c)) 2000]\<rparr>
      else g)"

text \<open>\<open>rotatePlayer(direction)\<close>, called on the keys \<open>q\<close> (1) and \<open>e\<close> (-1).\<close>

definition rotatePlayer :: "closure \<Rightarrow> real \<Rightarrow> game \<Rightarrow> game" where
  "rotatePlayer c direction g = g\<lparr>rotation_z := rotation_z g + direction * shipTorque (c_settings c)\<rparr>"

text \<open>The \<open>// Fire weapon\<close> block of \<open>updateGame\<close>; \<open>clock g\<close> is \<open>Date.now()\<close>.\<close>

definition fireWeapon :: "closure \<Rightarrow> game \<Rightarrow> game" where
  "fireWeapon c g =
     (if key_space g
      then (let now = clock g
            in if lastFireTime g = 0
                  \<or> real_of_int (now - lastFireTime g) > fireRate (c_settings c) * 100
               then (fireProjectile c g)\<lparr>lastFireTime := now\<rparr>
               else g)
      else g)"

text \<open>The difficulty tables of \<open>spawnEnemy\<close>, \<open>startGame\<close> and \<open>updateEnemies\<close>.\<close>

fun enemyHealth :: "difficulty \<Rightarrow> real" where
  "enemyHealth Easy = 5"
| "enemyHealth Medium = 10"
| "enemyHealth Hard = 15"

fun enemySpeed :: "difficulty \<Rightarrow> real" where
  "enemySpeed Easy = 1.5"
| "enemySpeed Medium = 2"
| "enemySpeed Hard = 3"

fun enemyPoints :: "difficulty \<Rightarrow> int" where
  "enemyPoints Easy = 50"
| "enemyPoints Medium = 100"
| "enemyPoints Hard = 150"

fun spawnInterval :: "difficulty \<Rightarrow> int" where
  "spawnInterval Easy = 3000"
| "spawnInterval Medium = 2000"
| "spawnInterval Hard = 1000"

fun bottomDamage :: "difficulty \<Rightarrow> real" where
  "bottomDamage Easy = 10"
| "bottomDamage Medium = 20"
| "bottomDamage Hard = 30"

fun collisionDamage :: "difficulty \<Rightarrow> real" where
  "collisionDamage Easy = 20"
| "collisionDamage Medium = 30"
| "collisionDamage Hard = 50"

text \<open>\<open>spawnEnemy\<close>; \<open>rnd\<close> is the value that \<open>Math.random()\<close> returns.\<close>

definition spawnEnemy :: "closure \<Rightarrow> real \<Rightarrow> game \<Rightarrow> game" where
  "spawnEnemy c rnd g =
     (if gameController g
      then (let d = difficulty (c_settings c);
                randomX = rnd * 20 - 10;
                pos = Vector3 randomX 20 0;
                vel = Vector3 0 (- enemySpeed d) 0
            in g\<lparr>enemies := enemies g @ [createEnemy pos vel (enemyHealth d) (enemyPoints d)]\<rparr>)
      else g)"

text \<open>The callback that \<open>startGame\<close> hands to \<open>setInterval(..., spawnInterval)\<close>.\<close>

definition enemySpawnTimer :: "closure \<Rightarrow> real \<Rightarrow> game \<Rightarrow> game" where
  "enemySpawnTimer c rnd g = (if \<not> c_isPaused c \<and> \<not> c_gameOver c then spawnEnemy c rnd g else g)"

subsection \<open>The per-frame update\<close>

text \<open>The input and movement block of \<open>updateGame\<close>.\<close>

definition movePlayer :: "closure \<Rightarrow> real \<Rightarrow> game \<Rightarrow> game" where
  "movePlayer c deltaTime g =
     (let moveY0 = (if key_w g then 1 else 0) - (if key_s g then 1 else (0::real));
          moveX0 = (if key_d g then 1 else 0) - (if key_a g then 1 else (0::real));
          len = (if moveX0 \<noteq> 0 \<and> moveY0 \<noteq> 0 then sqrt (moveX0 * moveX0 + moveY0 * moveY0) else 1);
          moveX = moveX0 / len;
          moveY = moveY0 / len;
          vx = moveX * horizontalSpeed (c_settings c);
          vy = moveY * shipSpeed (c_settings c);
          px = max (-15) (min 15 (vec_x (position g) + vx * deltaTime));
          py = max (-15) (min 15 (vec_y (position g) + vy * deltaTime));
          pos = Vector3 px py (vec_z (position g));
          vel = multiplyScalar (Vector3 vx vy (vec_z (velocity g))) 0.95
      in g\<lparr>position := pos, velocity := vel,
            shipControl := (case shipControl g of None \<Rightarrow> None | Some m \<Rightarrow> Some pos)\<rparr>)"

definition updateProjectiles :: "real \<Rightarrow> game \<Rightarrow> game" where
  "updateProjectiles deltaTime g =
     g\<lparr>projectiles :=
         filter (\<lambda>p. \<not> (p_lifetime p \<le> 0 \<or> \<bar>vec_x (p_position p)\<bar> > 20 \<or> \<bar>vec_y (p_position p)\<bar> > 20))
           (map (\<lambda>p. p\<lparr>p_position := vadd (p_position p) (multiplyScalar (p_velocity p) deltaTime),
                        p_lifetime := p_lifetime p - deltaTime * 1000\<rparr>)
              (projectiles g))\<rparr>"

text \<open>
  The inner loop of \<open>updateEnemies\<close> over the projectiles, from the last one down. The
  list is given last-first; the result is whether the enemy was destroyed, the enemy and
  the projectiles that remain (last-first). A hit removes the projectile; the hit that
  destroys the enemy ends the loop (\<open>break\<close>).
\<close>

fun hitScan :: "enemy \<Rightarrow> projectile list \<Rightarrow> bool \<times> enemy \<times> projectile list" where
  "hitScan e [] = (False, e, [])"
| "hitScan e (p # ps) =
     (if checkCollision (p_position p) (e_position e) 0.2 0.8
      then (let e' = e\<lparr>e_health := e_health e - p_damage p\<rparr>
            in if e_health e' \<le> 0 then (True, e', ps) else hitScan e' ps)
      else (case hitScan e ps of (destroyed, e', rest) \<Rightarrow> (destroyed, e', p # rest)))"

text \<open>
  The body of the outer loop for one enemy: the enemy if it stays in the list, and the
  state. The order of the checks is the source's: move, bottom of the screen, collision
  with the player, collision with the projectiles. An explosion (\<open>createExplosion\<close>)
  is recorded in \<open>effects\<close> by its position; its particles, and \<open>updateEffects\<close>
  which moves and fades them, belong to the rendering.
\<close>

definition stepEnemy :: "closure \<Rightarrow> real \<Rightarrow> enemy \<Rightarrow> game \<Rightarrow> enemy option \<times> game" where
  "stepEnemy c deltaTime e0 g =
     (let d = difficulty (c_settings c);
          e = e0\<lparr>e_position := vadd (e_position e0) (multiplyScalar (e_velocity e0) deltaTime)\<rparr>
      in if vec_y (e_position e) < -15
         then (None, if \<not> c_gameOver c then damagePlayer c (bottomDamage d) g else g)
         else if shipControl g \<noteq> None \<and> \<not> isInvincible g \<and> \<not> c_gameOver c
                 \<and> checkCollision (e_position e) (the (shipControl g)) 1.0 1.5
         then (None, damagePlayer c (collisionDamage d) g)
         else (case hitScan e (rev (projectiles g)) of
                 (destroyed, e', rest) \<Rightarrow>
                   (let g1 = g\<lparr>projectiles := rev rest\<rparr>
                    in if destroyed
                       then (None, g1\<lparr>effects := effects g1 @ [e_position e'],
                                      score := score g1 + e_points e',
                                      redux := incrementScore (e_points e') (redux g1)\<rparr>)
                       else (Some e', g1))))"

text \<open>The outer loop runs from the last enemy down to the first.\<close>

fun enemiesLoop :: "closure \<Rightarrow> real \<Rightarrow> enemy list \<Rightarrow> game \<Rightarrow> enemy list \<times> game" where
  "enemiesLoop c deltaTime [] g = ([], g)"
| "enemiesLoop c deltaTime (e # es) g =
     (case enemiesLoop c deltaTime es g of
        (kept, g1) \<Rightarrow>
          (case stepEnemy c deltaTime e g1 of
             (None, g2) \<Rightarrow> (kept, g2)
           | (Some e', g2) \<Rightarrow> (e' # kept, g2)))"

definition updateEnemies :: "closure \<Rightarrow> real \<Rightarrow> game \<Rightarrow> game" where
  "updateEnemies c deltaTime g =
     (if gameController g
      then (case enemiesLoop c deltaTime (enemies g) g of (kept, g1) \<Rightarrow> g1\<lparr>enemies := kept\<rparr>)
      else g)"

definition updateGame :: "closure \<Rightarrow> real \<Rightarrow> game \<Rightarrow> game" where
  "updateGame c deltaTime g =
     updateEnemies c deltaTime (updateProjectiles deltaTime (fireWeapon c (movePlayer c deltaTime g)))"

text \<open>
  One animation frame; \<open>secs\<close> is \<open>(time - previousTimeRef.current) / 1000\<close>.
\<close>

definition animate :: "closure \<Rightarrow> real \<Rightarrow> game \<Rightarrow> game" where
  "animate c secs g = (if \<not> c_isPaused c then updateGame c (min secs 0.1) g else g)"

subsection \<open>Renders, the mount effect and a session\<close>

text \<open>The closure that a render in state \<open>g\<close> creates.\<close>

definition render :: "settings \<Rightarrow> game \<Rightarrow> closure" where
  "render s g = \<lparr>c_score = score g, c_isPaused = isPaused g, c_gameOver = gameOver g, c_settings = s\<rparr>"

definition incrementGamesPlayed :: "int \<Rightarrow> storage \<Rightarrow> storage" where
  "incrementGamesPlayed now ls =
     (let gameData = loadGameData ls
      in saveGameData (\<lambda>d. d\<lparr>totalGamesPlayed := totalGamesPlayed gameData + 1, lastPlayed := now\<rparr>) ls)"

definition initialSlice :: "storage \<Rightarrow> gameSlice" where
  "initialSlice ls =
     \<lparr>r_isRunning = False, r_score = 0,
      r_highScore = (case highScoreItem ls of Some h \<Rightarrow> h | None \<Rightarrow> 0), r_gameOver = False\<rparr>"

text \<open>
  The state after the first render and its mount effect, at time \<open>now\<close> with the storage
  \<open>ls\<close>: the \<open>useState\<close> and \<open>useRef\<close> defaults, the controller and the ship created,
  \<open>incrementGamesPlayed()\<close> done.
\<close>

definition mountGame :: "int \<Rightarrow> storage \<Rightarrow> game" where
  "mountGame now ls =
     \<lparr>score = 0, isPaused = False, playerHealth = 100, playerLives = 3, gameOver = False,
      gameController = True, shipControl = Some (Vector3 0 0 0),
      position = Vector3 0 0 0, rotation_z = 0, velocity = Vector3 0 0 0,
      lastFireTime = 0, isInvincible = False,
      projectiles = [], enemies = [], effects = [],
      key_w = False, key_a = False, key_s = False, key_d = False, key_space = False,
      clock = now, timers = [],
      localStorage = incrementGamesPlayed now ls, redux = initialSlice ls\<rparr>"

text \<open>
  \<open>startGame()\<close> is called once, by the mount effect (\<open>useEffect(..., [])\<close>) of the first
  render. The interval callback and \<open>animate\<close> it installs, and through them
  \<open>updateGame\<close>, \<open>updateEnemies\<close>, \<open>spawnEnemy\<close>, \<open>damagePlayer\<close> and \<open>endGame\<close>,
  are the functions of that first render for the whole session. The first render sees the
  \<open>useState\<close> defaults, whatever the time and the storage are.
\<close>

definition mountClosure :: "settings \<Rightarrow> closure" where
  "mountClosure s = render s (mountGame 0 \<lparr>spaceStrikeData = None, highScoreItem = None\<rparr>)"

text \<open>
  The events of a session: a frame of the animation loop, a firing of the spawn timer,
  a \<open>damagePlayer\<close> call made by the loop (as \<open>updateEnemies\<close> does), a click on the
  debug button \<open>Take 10 Damage\<close> (\<open>applyDirectDamage\<close> of the current render), the Escape
  key, and time passing.
\<close>

datatype event =
    Frame real
  | SpawnTimer real
  | LoopDamage real
  | ButtonDamage real
  | Escape
  | Elapse int

definition applyDirectDamage :: "closure \<Rightarrow> real \<Rightarrow> game \<Rightarrow> game" where
  "applyDirectDamage c damage g = (if c_gameOver c then g else damagePlayer c damage g)"

fun step :: "settings \<Rightarrow> event \<Rightarrow> game \<Rightarrow> game" where
  "step s (Frame secs) g = animate (mountClosure s) secs g"
| "step s (SpawnTimer rnd) g = enemySpawnTimer (mountClosure s) rnd g"
| "step s (LoopDamage amount) g = damagePlayer (mountClosure s) amount g"
| "step s (ButtonDamage amount) g = applyDirectDamage (render s g) amount g"
| "step s Escape g = g\<lparr>isPaused := \<not> isPaused g\<rparr>"
| "step s (Elapse dt) g = elapse dt g"

fun run :: "settings \<Rightarrow> event list \<Rightarrow> game \<Rightarrow> game" where
  "run s [] g = g"
| "run s (ev # evs) g = run s evs (step s ev g)"

subsection \<open>Invariants of a session\<close>

definition healthInRange :: "game \<Rightarrow> bool" where
  "healthInRange g = (0 \<le> playerHealth g \<and> playerHealth g \<le> 100)"

text \<open>The amount of damage an event asks for (the loop's own amounts come from the tables).\<close>

fun damageAmount :: "event \<Rightarrow> real" where
  "damageAmount (LoopDamage a) = a"
| "damageAmount (ButtonDamage a) = a"
| "damageAmount ev = 0"

text \<open>
  The timer queue is empty, or the player is invincible and the queue ends with the timer
  that clears the invincibility, behind at most one other timer.
\<close>

definition timersSettled :: "game \<Rightarrow> bool" where
  "timersSettled g =
     (timers g = []
      \<or> (isInvincible g
          \<and> (\<exists>b. timers g = [(b, ClearInvincible)]
                \<or> (\<exists>a f. f \<noteq> ClearInvincible \<and> timers g = [(a, f), (b, ClearInvincible)]))))"

subsection \<open>Concrete sessions\<close>

text \<open>Inputs at which the properties below are evaluated.\<close>

definition emptyStorage :: storage where
  "emptyStorage = \<lparr>spaceStrikeData = None, highScoreItem = None\<rparr>"

definition hardSettings :: settings where
  "hardSettings = initialSettings\<lparr>difficulty := Hard\<rparr>"

text \<open>
  Six collisions on \<open>hard\<close> (50 each), one second apart: every second one costs a life,
  the sixth takes the last one, and the \<open>endGame\<close> it schedules has run at the end.
\<close>

definition sixCollisions :: "event list" where
  "sixCollisions =
     [LoopDamage 50, Elapse 1000, LoopDamage 50, Elapse 1000, LoopDamage 50, Elapse 1000,
      LoopDamage 50, Elapse 1000, LoopDamage 50, Elapse 1000, LoopDamage 50, Elapse 1000]"

text \<open>
  An enemy just above the bottom line \<open>y = -15\<close>, which it crosses in a frame of 0.1 s,
  as spawned on \<open>medium\<close> and on \<open>hard\<close>, and a projectile that is then at its centre.
\<close>

definition crossingEnemy :: enemy where
  "crossingEnemy =
     \<lparr>e_position = Vector3 0 (- 14.9) 0, e_velocity = Vector3 0 (- 2) 0,
      e_health = 10, e_points = 100\<rparr>"

definition crossingEnemyHard :: enemy where
  "crossingEnemyHard =
     \<lparr>e_position = Vector3 0 (- 14.9) 0, e_velocity = Vector3 0 (- 3) 0,
      e_health = 15, e_points = 150\<rparr>"

definition overlappingProjectile :: projectile where
  "overlappingProjectile =
     \<lparr>p_position = Vector3 0 (- 15.1) 0, p_velocity = Vector3 0 (- 10) 0,
      p_damage = 10, p_lifetime = 1500\<rparr>"

section \<open>Properties\<close>

lemmas session_defs =
  mountGame_def emptyStorage_def mountClosure_def render_def damagePlayer_def loseLife_def
  setTimeout_def elapse_def endGame_def Let_def reduxEndGame_def updateHighScore_def
  saveGameData_def loadGameData_def initialSlice_def incrementGamesPlayed_def
  defaultGameData_def initialSettings_def hardSettings_def sixCollisions_def

lemmas frame_defs =
  animate_def updateGame_def movePlayer_def fireWeapon_def updateProjectiles_def
  updateEnemies_def stepEnemy_def vadd_def multiplyScalar_def Vector3_def checkCollision_def
  distanceTo_def crossingEnemy_def crossingEnemyHard_def overlappingProjectile_def

subsection \<open>What the parts of a frame can change\<close>

lemma movePlayer_result:
  "\<exists>pos vel sc. movePlayer c dt g = g\<lparr>position := pos, velocity := vel, shipControl := sc\<rparr>"
  unfolding movePlayer_def Let_def by (intro exI) (rule refl)

lemma fireWeapon_result:
  "fireWeapon c g = g
   \<or> (\<exists>ps. fireWeapon c g = g\<lparr>projectiles := ps, lastFireTime := clock g\<rparr>)
   \<or> fireWeapon c g = g\<lparr>lastFireTime := clock g\<rparr>"
  unfolding fireWeapon_def fireProjectile_def Let_def
  by (cases "gameController g \<and> shipControl g \<noteq> None") auto

lemma updateProjectiles_result:
  "\<exists>ps. updateProjectiles dt g = g\<lparr>projectiles := ps\<rparr>"
  unfolding updateProjectiles_def by (intro exI) (rule refl)

lemma beforeEnemies_result:
  "\<exists>pos vel sc ps lf. updateProjectiles dt (fireWeapon c (movePlayer c dt g))
      = g\<lparr>position := pos, velocity := vel, shipControl := sc, projectiles := ps, lastFireTime := lf\<rparr>"
proof -
  define g1 where "g1 = movePlayer c dt g"
  define g2 where "g2 = fireWeapon c g1"
  obtain pos vel sc where m: "g1 = g\<lparr>position := pos, velocity := vel, shipControl := sc\<rparr>"
    unfolding g1_def using movePlayer_result by blast
  have "\<exists>ps lf. g2 = g1\<lparr>projectiles := ps, lastFireTime := lf\<rparr>"
  proof -
    have "g1 = g1\<lparr>projectiles := projectiles g1, lastFireTime := lastFireTime g1\<rparr>" by simp
    moreover have "g1\<lparr>lastFireTime := clock g1\<rparr>
        = g1\<lparr>projectiles := projectiles g1, lastFireTime := clock g1\<rparr>" by simp
    ultimately show ?thesis unfolding g2_def using fireWeapon_result [of c g1] by metis
  qed
  then obtain ps lf where f: "g2 = g1\<lparr>projectiles := ps, lastFireTime := lf\<rparr>"
    by blast
  obtain ps' where u: "updateProjectiles dt g2 = g2\<lparr>projectiles := ps'\<rparr>"
    using updateProjectiles_result by blast
  have "g2\<lparr>projectiles := ps'\<rparr>
      = g\<lparr>position := pos, velocity := vel, shipControl := sc, projectiles := ps', lastFireTime := lf\<rparr>"
    unfolding f m by simp
  with u have "updateProjectiles dt g2
      = g\<lparr>position := pos, velocity := vel, shipControl := sc, projectiles := ps', lastFireTime := lf\<rparr>"
    by (rule trans)
  then show ?thesis unfolding g2_def g1_def by blast
qed

text \<open>
  The loop body for one enemy leaves the state alone, or damages the player with one of
  the two table amounts, or removes projectiles, or removes projectiles and credits a kill.
\<close>

lemma stepEnemy_result:
  "snd (stepEnemy c dt e g) = g
   \<or> snd (stepEnemy c dt e g) = damagePlayer c (bottomDamage (difficulty (c_settings c))) g
   \<or> snd (stepEnemy c dt e g) = damagePlayer c (collisionDamage (difficulty (c_settings c))) g
   \<or> (\<exists>ps. snd (stepEnemy c dt e g) = g\<lparr>projectiles := ps\<rparr>)
   \<or> (\<exists>ps fx n. snd (stepEnemy c dt e g) =
         g\<lparr>projectiles := ps, effects := fx, score := score g + n, redux := incrementScore n (redux g)\<rparr>)"
proof -
  define e1 where "e1 = e\<lparr>e_position := vadd (e_position e) (multiplyScalar (e_velocity e) dt)\<rparr>"
  obtain destroyed e2 rest where h: "hitScan e1 (rev (projectiles g)) = (destroyed, e2, rest)"
    by (cases "hitScan e1 (rev (projectiles g))")
  show ?thesis
    unfolding stepEnemy_def Let_def e1_def [symmetric] h
    by (cases "vec_y (e_position e1) < - 15"; cases "c_gameOver c"; cases "isInvincible g";
        cases "shipControl g"; cases destroyed;
        cases "checkCollision (e_position e1) (the (shipControl g)) 1.0 1.5") auto
qed

text \<open>
  A property that the damage path keeps for the amounts \<open>A\<close>, and that does not depend on
  the fields the rest of a frame writes, is kept by the enemy loop, by a frame, by every
  event and by a session.
\<close>

lemma enemiesLoop_keeps:
  assumes dmg: "\<And>a g. A a \<Longrightarrow> P g \<Longrightarrow> P (damagePlayer c a g)"
    and tab: "\<And>d. A (bottomDamage d)" "\<And>d. A (collisionDamage d)"
    and prj: "\<And>g ps. P g \<Longrightarrow> P (g\<lparr>projectiles := ps\<rparr>)"
    and kill: "\<And>g ps fx n. P g \<Longrightarrow>
        P (g\<lparr>projectiles := ps, effects := fx, score := score g + n, redux := incrementScore n (redux g)\<rparr>)"
    and "P g"
  shows "P (snd (enemiesLoop c dt es g))"
proof (induction es)
  case Nil
  show ?case using \<open>P g\<close> by simp
next
  case (Cons e es)
  obtain kept g1 where l: "enemiesLoop c dt es g = (kept, g1)" by (cases "enemiesLoop c dt es g")
  have g1: "P g1" using Cons l by simp
  have "P (snd (stepEnemy c dt e g1))"
    using stepEnemy_result [of c dt e g1] g1 dmg tab prj kill by (elim disjE exE) simp_all
  moreover have "snd (enemiesLoop c dt (e # es) g) = snd (stepEnemy c dt e g1)"
    by (simp add: l split: prod.splits option.splits)
  ultimately show ?case by simp
qed

lemma updateGame_keeps:
  assumes dmg: "\<And>a g. A a \<Longrightarrow> P g \<Longrightarrow> P (damagePlayer c a g)"
    and tab: "\<And>d. A (bottomDamage d)" "\<And>d. A (collisionDamage d)"
    and prj: "\<And>g ps. P g \<Longrightarrow> P (g\<lparr>projectiles := ps\<rparr>)"
    and kill: "\<And>g ps fx n. P g \<Longrightarrow>
        P (g\<lparr>projectiles := ps, effects := fx, score := score g + n, redux := incrementScore n (redux g)\<rparr>)"
    and before: "\<And>g pos vel sc ps lf. P g \<Longrightarrow>
        P (g\<lparr>position := pos, velocity := vel, shipControl := sc, projectiles := ps, lastFireTime := lf\<rparr>)"
    and enm: "\<And>g es. P g \<Longrightarrow> P (g\<lparr>enemies := es\<rparr>)"
    and "P g"
  shows "P (updateGame c dt g)"
proof -
  let ?g = "updateProjectiles dt (fireWeapon c (movePlayer c dt g))"
  have "P ?g" using beforeEnemies_result [of dt c g] before \<open>P g\<close> by (elim exE) simp
  then have "P (snd (enemiesLoop c dt (enemies ?g) ?g))"
    using dmg tab prj kill by (intro enemiesLoop_keeps [where P = P and A = A]) auto
  moreover obtain kept g1 where l: "enemiesLoop c dt (enemies ?g) ?g = (kept, g1)"
    by (cases "enemiesLoop c dt (enemies ?g) ?g")
  ultimately have "P (g1\<lparr>enemies := kept\<rparr>)" using enm by simp
  then show ?thesis
    using \<open>P ?g\<close> by (simp add: updateGame_def updateEnemies_def l)
qed

lemma runTimers_keeps:
  assumes "\<And>g f. P g \<Longrightarrow> P (fire f g)"
    and "\<And>g d us. P g \<Longrightarrow> P (g\<lparr>clock := d, timers := us\<rparr>)"
    and "\<And>g us. P g \<Longrightarrow> P (g\<lparr>timers := us\<rparr>)"
    and "P g"
  shows "P (runTimers t us g)"
  using assms(4)
proof (induction us arbitrary: g)
  case Nil
  then show ?case using assms(3) by simp
next
  case (Cons u us)
  have "P (fire (snd u) (g\<lparr>clock := fst u, timers := us\<rparr>))"
    using Cons.prems assms(1,2) by simp
  then show ?case using Cons.IH Cons.prems assms(3) by simp
qed

lemma step_keeps:
  assumes dmg: "\<And>c a g. A a \<Longrightarrow> P g \<Longrightarrow> P (damagePlayer c a g)"
    and tab: "\<And>d. A (bottomDamage d)" "\<And>d. A (collisionDamage d)"
    and prj: "\<And>g ps. P g \<Longrightarrow> P (g\<lparr>projectiles := ps\<rparr>)"
    and kill: "\<And>g ps fx n. P g \<Longrightarrow>
        P (g\<lparr>projectiles := ps, effects := fx, score := score g + n, redux := incrementScore n (redux g)\<rparr>)"
    and before: "\<And>g pos vel sc ps lf. P g \<Longrightarrow>
        P (g\<lparr>position := pos, velocity := vel, shipControl := sc, projectiles := ps, lastFireTime := lf\<rparr>)"
    and enm: "\<And>g es. P g \<Longrightarrow> P (g\<lparr>enemies := es\<rparr>)"
    and pause: "\<And>g b. P g \<Longrightarrow> P (g\<lparr>isPaused := b\<rparr>)"
    and time: "\<And>g dt. P g \<Longrightarrow> P (elapse dt g)"
    and amount: "A (damageAmount ev)"
    and "P g"
  shows "P (step s ev g)"
proof (cases ev)
  case (Frame secs)
  have "P (updateGame (mountClosure s) (min secs 0.1) g)"
    using dmg tab prj kill before enm \<open>P g\<close>
    by (intro updateGame_keeps [where P = P and A = A]) auto
  then show ?thesis using Frame \<open>P g\<close> by (simp add: animate_def)
next
  case (SpawnTimer rnd)
  then show ?thesis using enm \<open>P g\<close> by (simp add: enemySpawnTimer_def spawnEnemy_def Let_def)
next
  case (LoopDamage a)
  then show ?thesis using dmg amount \<open>P g\<close> by simp
next
  case (ButtonDamage a)
  then show ?thesis using dmg amount \<open>P g\<close> by (simp add: applyDirectDamage_def)
next
  case Escape
  then show ?thesis using pause \<open>P g\<close> by simp
next
  case (Elapse dt)
  then show ?thesis using time \<open>P g\<close> by simp
qed

lemma run_keeps:
  assumes dmg: "\<And>c a g. A a \<Longrightarrow> P g \<Longrightarrow> P (damagePlayer c a g)"
    and tab: "\<And>d. A (bottomDamage d)" "\<And>d. A (collisionDamage d)"
    and prj: "\<And>g ps. P g \<Longrightarrow> P (g\<lparr>projectiles := ps\<rparr>)"
    and kill: "\<And>g ps fx n. P g \<Longrightarrow>
        P (g\<lparr>projectiles := ps, effects := fx, score := score g + n, redux := incrementScore n (redux g)\<rparr>)"
    and before: "\<And>g pos vel sc ps lf. P g \<Longrightarrow>
        P (g\<lparr>position := pos, velocity := vel, shipControl := sc, projectiles := ps, lastFireTime := lf\<rparr>)"
    and enm: "\<And>g es. P g \<Longrightarrow> P (g\<lparr>enemies := es\<rparr>)"
    and pause: "\<And>g b. P g \<Longrightarrow> P (g\<lparr>isPaused := b\<rparr>)"
    and time: "\<And>g dt. P g \<Longrightarrow> P (elapse dt g)"
    and amount: "\<forall>ev \<in> set evs. A (damageAmount ev)"
    and "P g"
  shows "P (run s evs g)"
  using amount \<open>P g\<close>
proof (induction evs arbitrary: g)
  case Nil
  then show ?case by simp
next
  case (Cons ev evs)
  have "P (step s ev g)"
    using dmg tab prj kill before enm pause time Cons.prems
    by (intro step_keeps [where P = P and A = A]) auto
  then show ?case using Cons by simp
qed

subsection \<open>Invariants of every session\<close>

lemma elapse_health: "healthInRange g \<Longrightarrow> healthInRange (elapse dt g)"
proof -
  assume h: "healthInRange g"
  have f: "\<And>g f. healthInRange g \<Longrightarrow> healthInRange (fire f g)"
  proof -
    fix g f show "healthInRange g \<Longrightarrow> healthInRange (fire f g)"
      by (cases f) (simp_all add: healthInRange_def endGame_def Let_def)
  qed
  have "healthInRange (runTimers (clock g + dt) (timers g) g)"
    using f h by (intro runTimers_keeps [where P = healthInRange]) (simp_all add: healthInRange_def)
  then show ?thesis by (simp add: elapse_def healthInRange_def)
qed

text \<open>
  Health stays within \<open>[0, 100]\<close> through every session whose damage amounts are not
  negative (the amounts of the tables are 10 to 50).
\<close>

lemma health_in_range:
  assumes "\<forall>ev \<in> set evs. 0 \<le> damageAmount ev"
  shows "healthInRange (run s evs (mountGame now ls))"
proof (rule run_keeps [where P = healthInRange and A = "\<lambda>a. 0 \<le> a"])
  show "\<And>c a g. 0 \<le> a \<Longrightarrow> healthInRange g \<Longrightarrow> healthInRange (damagePlayer c a g)"
    by (simp add: healthInRange_def damagePlayer_def loseLife_def setTimeout_def Let_def)
  show "\<And>d. 0 \<le> bottomDamage d" by (case_tac d) simp_all
  show "\<And>d. 0 \<le> collisionDamage d" by (case_tac d) simp_all
  show "\<And>g dt. healthInRange g \<Longrightarrow> healthInRange (elapse dt g)" by (rule elapse_health)
  show "healthInRange (mountGame now ls)" by (simp add: healthInRange_def mountGame_def)
qed (use assms in \<open>simp_all add: healthInRange_def\<close>)

lemma elapse_gameOver: "gameOver g \<Longrightarrow> gameOver (elapse dt g)"
proof -
  assume h: "gameOver g"
  have f: "\<And>g f. gameOver g \<Longrightarrow> gameOver (fire f g)"
  proof -
    fix g f show "gameOver g \<Longrightarrow> gameOver (fire f g)"
      by (cases f) (simp_all add: endGame_def Let_def)
  qed
  have "gameOver (runTimers (clock g + dt) (timers g) g)"
    using f h by (intro runTimers_keeps [where P = gameOver]) simp_all
  then show ?thesis by (simp add: elapse_def)
qed

text \<open>Nothing resets the \<open>gameOver\<close> state cell.\<close>

lemma gameOver_stays:
  assumes "gameOver g"
  shows "gameOver (run s evs g)"
proof (rule run_keeps [where P = gameOver and A = "\<lambda>a. True"])
  show "\<And>c a g. True \<Longrightarrow> gameOver g \<Longrightarrow> gameOver (damagePlayer c a g)"
    by (simp add: damagePlayer_def loseLife_def setTimeout_def Let_def)
  show "\<And>g dt. gameOver g \<Longrightarrow> gameOver (elapse dt g)" by (rule elapse_gameOver)
  show "gameOver g" by (rule assms)
qed simp_all

lemma damagePlayer_settled: "timersSettled g \<Longrightarrow> timersSettled (damagePlayer c a g)"
  by (cases "isInvincible g")
     (auto simp add: timersSettled_def damagePlayer_def loseLife_def setTimeout_def Let_def)

lemma fire_not_clear: "f \<noteq> ClearInvincible \<Longrightarrow> isInvincible (fire f g) = isInvincible g"
  by (cases f) (simp_all add: endGame_def Let_def)

lemma elapse_settled:
  assumes "timersSettled g"
  shows "timersSettled (elapse dt g)"
proof -
  consider (none) "timers g = []"
    | (one) b where "isInvincible g" "timers g = [(b, ClearInvincible)]"
    | (two) a f b where "isInvincible g" "f \<noteq> ClearInvincible"
        "timers g = [(a, f), (b, ClearInvincible)]"
    using assms unfolding timersSettled_def by blast
  then show ?thesis
  proof cases
    case none
    then show ?thesis by (simp add: elapse_def timersSettled_def)
  next
    case one
    then show ?thesis by (simp add: elapse_def timersSettled_def)
  next
    case two
    then show ?thesis by (simp add: elapse_def timersSettled_def fire_not_clear)
  qed
qed

lemma timers_settled: "timersSettled (run s evs (mountGame now ls))"
proof (rule run_keeps [where P = timersSettled and A = "\<lambda>a. True"])
  show "\<And>c a g. True \<Longrightarrow> timersSettled g \<Longrightarrow> timersSettled (damagePlayer c a g)"
    by (simp add: damagePlayer_settled)
  show "\<And>g dt. timersSettled g \<Longrightarrow> timersSettled (elapse dt g)" by (rule elapse_settled)
  show "timersSettled (mountGame now ls)" by (simp add: timersSettled_def mountGame_def)
qed (simp_all add: timersSettled_def)

text \<open>
  In every state of a session in which the player can be damaged, no timer is pending:
  the timers of a damage call have all fired when its invincibility ends.
\<close>

lemma vulnerable_no_timers:
  assumes "\<not> isInvincible (run s evs (mountGame now ls))"
  shows "timers (run s evs (mountGame now ls)) = []"
  using assms timers_settled [of s evs now ls] by (auto simp add: timersSettled_def)

text \<open>A closure that has seen the game end drops every damage call.\<close>

lemma damagePlayer_after_gameOver: "c_gameOver c \<Longrightarrow> damagePlayer c amount g = g"
  by (simp add: damagePlayer_def)

text \<open>
  The closure of the animation loop and of the spawn timer never sees the game paused or
  over, and holds the score 0.
\<close>

lemma mountClosure_stale:
  "c_isPaused (mountClosure s) = False \<and> c_gameOver (mountClosure s) = False
   \<and> c_score (mountClosure s) = 0"
  by (simp add: mountClosure_def render_def mountGame_def)

subsection \<open>Damage during invincibility\<close>

text \<open>
  C1. A \<open>damagePlayer(amount)\<close> call that arrives while \<open>isInvincible\<close> is true changes
  nothing: the whole state, with health, lives, score and the timer queue, is returned as
  it was, for every amount and whatever closure issues the call. The call is dropped, no
  timer is queued for it.
\<close>

theorem damagePlayer_invincible_noop:
  assumes "isInvincible g"
  shows "damagePlayer c amount g = g"
  using assms by (simp add: damagePlayer_def)

theorem damagePlayer_invincible_noop_witness:
  "isInvincible ((mountGame 0 emptyStorage)\<lparr>isInvincible := True\<rparr>)
   \<and> damagePlayer (mountClosure initialSettings) 30 ((mountGame 0 emptyStorage)\<lparr>isInvincible := True\<rparr>)
       = (mountGame 0 emptyStorage)\<lparr>isInvincible := True\<rparr>"
  using damagePlayer_invincible_noop
          [of "(mountGame 0 emptyStorage)\<lparr>isInvincible := True\<rparr>" "mountClosure initialSettings" 30]
  by simp

subsection \<open>Lives after the game has ended\<close>

text \<open>
  C2. The specification says that through every sequence of damage applications from the initial
  state (health 100, lives 3) health stays in \<open>[0, 100]\<close> and lives never go negative.
  The health bound holds (\<open>health_in_range\<close>). The lives bound does not: the loop calls
  \<open>damagePlayer\<close> of the first render, whose \<open>gameOver\<close> is false for ever, so a hit
  after the game has ended (lives 0, health 0, invincibility over) takes one more life.
  On \<open>hard\<close>, six collisions one second apart end the game with 0 lives, and the seventh
  leaves \<open>playerLives = -1\<close>.
\<close>

theorem lives_negative_after_seventh_collision:
  "playerLives (run hardSettings sixCollisions (mountGame 0 emptyStorage)) = 0
   \<and> playerLives (run hardSettings (sixCollisions @ [LoopDamage 50]) (mountGame 0 emptyStorage)) = - 1"
  by (simp add: session_defs)

text \<open>
  C3. The specification says that once lives reach 0 the game-over state is terminal: \<open>gameOver\<close>
  stays true and no later tick or damage event changes health, lives or score. The first
  half holds (\<open>gameOver_stays\<close>). The second does not: \<open>animate\<close> and \<open>damagePlayer\<close>
  of the first render still see \<open>isPaused = false\<close> and \<open>gameOver = false\<close>, so frames
  keep running after the game has ended, and an enemy that crosses the bottom line in such
  a frame takes a life: lives go from 0 to \<open>-1\<close>.
\<close>

theorem damage_after_game_over:
  "gameOver (run hardSettings sixCollisions (mountGame 0 emptyStorage))
   \<and> playerLives (run hardSettings sixCollisions (mountGame 0 emptyStorage)) = 0
   \<and> gameOver (step hardSettings (Frame 0.1)
        ((run hardSettings sixCollisions (mountGame 0 emptyStorage))\<lparr>enemies := [crossingEnemyHard]\<rparr>))
   \<and> playerLives (step hardSettings (Frame 0.1)
        ((run hardSettings sixCollisions (mountGame 0 emptyStorage))\<lparr>enemies := [crossingEnemyHard]\<rparr>))
      = - 1"
  by (simp add: session_defs frame_defs)

subsection \<open>Losing the last life, losing a life\<close>

text \<open>
  C4, as specified: with health 10 and lives 1, \<open>damage(30)\<close> enters the game-over state
  immediately. It does not: right after the call health and lives are 0 but \<open>gameOver\<close>
  is still false, because \<open>endGame\<close> is deferred by \<open>setTimeout(endGame, 50)\<close>.
\<close>

theorem last_life_game_over_not_immediate:
  "playerHealth (damagePlayer (mountClosure initialSettings) 30
      ((mountGame 0 emptyStorage)\<lparr>playerHealth := 10, playerLives := 1\<rparr>)) = 0
   \<and> playerLives (damagePlayer (mountClosure initialSettings) 30
      ((mountGame 0 emptyStorage)\<lparr>playerHealth := 10, playerLives := 1\<rparr>)) = 0
   \<and> \<not> gameOver (damagePlayer (mountClosure initialSettings) 30
      ((mountGame 0 emptyStorage)\<lparr>playerHealth := 10, playerLives := 1\<rparr>))"
  by (simp add: session_defs)

text \<open>
  C4, amended. If the player has health 10 and lives 1, is not invincible and no timer is
  pending, then a \<open>damage(30)\<close> call that is not dropped sets health to 0 and lives to 0
  at once and schedules two timers only: \<open>endGame\<close> after 50 ms and the end of the
  invincibility after 1000 ms, no restoration of health. Once the 50 ms have passed the
  game-over state is entered (\<open>gameOver\<close> and \<open>isPaused\<close> true), health and lives are
  still 0, and \<open>updateHighScore\<close> has been invoked on the storage at that time.
\<close>

theorem last_life_game_over_after_50ms:
  assumes "playerHealth g = 10" and "playerLives g = 1"
    and "\<not> isInvincible g" and "\<not> c_gameOver c" and "timers g = []" and "50 \<le> dt"
  shows "playerHealth (damagePlayer c 30 g) = 0
       \<and> playerLives (damagePlayer c 30 g) = 0
       \<and> timers (damagePlayer c 30 g) = [(clock g + 50, EndGame c), (clock g + 1000, ClearInvincible)]
       \<and> gameOver (elapse dt (damagePlayer c 30 g))
       \<and> isPaused (elapse dt (damagePlayer c 30 g))
       \<and> playerHealth (elapse dt (damagePlayer c 30 g)) = 0
       \<and> playerLives (elapse dt (damagePlayer c 30 g)) = 0
       \<and> (\<exists>scr. localStorage (elapse dt (damagePlayer c 30 g))
                  = updateHighScore scr (clock g + 50) (snd (reduxEndGame (redux g, localStorage g))))"
  using assms
  by (auto simp add: damagePlayer_def loseLife_def setTimeout_def elapse_def endGame_def Let_def)

theorem last_life_game_over_after_50ms_witness:
  "playerHealth ((mountGame 0 emptyStorage)\<lparr>playerHealth := 10, playerLives := 1\<rparr>) = 10
   \<and> playerLives ((mountGame 0 emptyStorage)\<lparr>playerHealth := 10, playerLives := 1\<rparr>) = 1
   \<and> \<not> isInvincible ((mountGame 0 emptyStorage)\<lparr>playerHealth := 10, playerLives := 1\<rparr>)
   \<and> \<not> c_gameOver (mountClosure initialSettings)
   \<and> timers ((mountGame 0 emptyStorage)\<lparr>playerHealth := 10, playerLives := 1\<rparr>) = []
   \<and> gameOver (elapse 50 (damagePlayer (mountClosure initialSettings) 30
        ((mountGame 0 emptyStorage)\<lparr>playerHealth := 10, playerLives := 1\<rparr>)))
   \<and> playerHealth (elapse 50 (damagePlayer (mountClosure initialSettings) 30
        ((mountGame 0 emptyStorage)\<lparr>playerHealth := 10, playerLives := 1\<rparr>))) = 0
   \<and> playerLives (elapse 50 (damagePlayer (mountClosure initialSettings) 30
        ((mountGame 0 emptyStorage)\<lparr>playerHealth := 10, playerLives := 1\<rparr>))) = 0"
proof -
  let ?g = "(mountGame 0 emptyStorage)\<lparr>playerHealth := 10, playerLives := 1\<rparr>"
  let ?c = "mountClosure initialSettings"
  have h: "playerHealth ?g = 10" "playerLives ?g = 1" "\<not> isInvincible ?g" "\<not> c_gameOver ?c"
    "timers ?g = []" "(50::int) \<le> 50"
    by (simp_all add: mountGame_def mountClosure_def render_def)
  show ?thesis
    using h last_life_game_over_after_50ms [OF h] by simp
qed

text \<open>
  Which score \<open>endGame\<close> passes on is the \<open>score\<close> of the render that created it.
  For a hit dealt by the loop that is the first render: a player who dies with 300 points
  has them in the state and in the Redux slice, whose reducer writes them to the
  \<open>highScore\<close> item, while \<open>updateHighScore\<close> receives 0 and the stored record
  keeps the high score 0.
\<close>

lemma high_score_of_the_first_render:
  "score (run initialSettings [LoopDamage 30, Elapse 50]
      ((mountGame 0 emptyStorage)\<lparr>score := 300, redux := (initialSlice emptyStorage)\<lparr>r_score := 300\<rparr>,
         playerHealth := 10, playerLives := 1\<rparr>)) = 300
   \<and> gameOver (run initialSettings [LoopDamage 30, Elapse 50]
      ((mountGame 0 emptyStorage)\<lparr>score := 300, redux := (initialSlice emptyStorage)\<lparr>r_score := 300\<rparr>,
         playerHealth := 10, playerLives := 1\<rparr>))
   \<and> highScoreItem (localStorage (run initialSettings [LoopDamage 30, Elapse 50]
      ((mountGame 0 emptyStorage)\<lparr>score := 300, redux := (initialSlice emptyStorage)\<lparr>r_score := 300\<rparr>,
         playerHealth := 10, playerLives := 1\<rparr>))) = Some 300
   \<and> persistedHighScore (localStorage (run initialSettings [LoopDamage 30, Elapse 50]
      ((mountGame 0 emptyStorage)\<lparr>score := 300, redux := (initialSlice emptyStorage)\<lparr>r_score := 300\<rparr>,
         playerHealth := 10, playerLives := 1\<rparr>))) = 0"
  by (simp add: session_defs persistedHighScore_def)

text \<open>
  C5. If the player has health 20 and lives 2, is not invincible, no timer is pending and
  the game is neither paused nor over, then a \<open>damage(30)\<close> call that is not dropped
  sets health to 0 and lives to 1. Once the recovery window of 500 ms has passed health
  is exactly 100, lives are still 1, the game is neither over nor paused, and the only
  timer that can still be pending is the one that ends the invincibility.
\<close>

theorem life_lost_health_restored:
  assumes "playerHealth g = 20" and "playerLives g = 2"
    and "\<not> isInvincible g" and "\<not> c_gameOver c" and "timers g = []"
    and "\<not> gameOver g" and "\<not> isPaused g" and "500 \<le> dt"
  shows "playerHealth (damagePlayer c 30 g) = 0
       \<and> playerLives (damagePlayer c 30 g) = 1
       \<and> playerHealth (elapse dt (damagePlayer c 30 g)) = 100
       \<and> playerLives (elapse dt (damagePlayer c 30 g)) = 1
       \<and> \<not> gameOver (elapse dt (damagePlayer c 30 g))
       \<and> \<not> isPaused (elapse dt (damagePlayer c 30 g))
       \<and> timers (elapse dt (damagePlayer c 30 g))
           = (if dt < 1000 then [(clock g + 1000, ClearInvincible)] else [])"
  using assms by (simp add: damagePlayer_def loseLife_def setTimeout_def elapse_def Let_def)

theorem life_lost_health_restored_witness:
  "playerHealth ((mountGame 0 emptyStorage)\<lparr>playerHealth := 20, playerLives := 2\<rparr>) = 20
   \<and> playerLives ((mountGame 0 emptyStorage)\<lparr>playerHealth := 20, playerLives := 2\<rparr>) = 2
   \<and> \<not> isInvincible ((mountGame 0 emptyStorage)\<lparr>playerHealth := 20, playerLives := 2\<rparr>)
   \<and> \<not> c_gameOver (mountClosure initialSettings)
   \<and> timers ((mountGame 0 emptyStorage)\<lparr>playerHealth := 20, playerLives := 2\<rparr>) = []
   \<and> \<not> gameOver ((mountGame 0 emptyStorage)\<lparr>playerHealth := 20, playerLives := 2\<rparr>)
   \<and> \<not> isPaused ((mountGame 0 emptyStorage)\<lparr>playerHealth := 20, playerLives := 2\<rparr>)
   \<and> playerLives (damagePlayer (mountClosure initialSettings) 30
        ((mountGame 0 emptyStorage)\<lparr>playerHealth := 20, playerLives := 2\<rparr>)) = 1
   \<and> playerHealth (elapse 500 (damagePlayer (mountClosure initialSettings) 30
        ((mountGame 0 emptyStorage)\<lparr>playerHealth := 20, playerLives := 2\<rparr>))) = 100
   \<and> \<not> gameOver (elapse 500 (damagePlayer (mountClosure initialSettings) 30
        ((mountGame 0 emptyStorage)\<lparr>playerHealth := 20, playerLives := 2\<rparr>)))"
proof -
  let ?g = "(mountGame 0 emptyStorage)\<lparr>playerHealth := 20, playerLives := 2\<rparr>"
  let ?c = "mountClosure initialSettings"
  have h: "playerHealth ?g = 20" "playerLives ?g = 2" "\<not> isInvincible ?g" "\<not> c_gameOver ?c"
    "timers ?g = []" "\<not> gameOver ?g" "\<not> isPaused ?g" "(500::int) \<le> 500"
    by (simp_all add: mountGame_def mountClosure_def render_def)
  show ?thesis
    using h life_lost_health_restored [OF h] by simp
qed

subsection \<open>The weapon\<close>

lemma vlength_forward: "vlength (forward rz) = 1"
  by (simp add: vlength_def forward_def Vector3_def power2_eq_square [symmetric])

lemma normalize_forward: "normalize (forward rz) = forward rz"
  unfolding normalize_def vlength_forward
  by (simp add: multiplyScalar_def forward_def Vector3_def)

text \<open>
  What the fire block does: with the fire key down, a shot is made if none was made yet
  or if more than \<open>fireRate * 100\<close> ms have passed since the last one; the projectile
  starts at the player's position, flies along the forward vector at \<open>fireSpeed\<close>, has
  the damage \<open>fireStrength\<close> and the lifetime 2000 ms. Otherwise nothing changes.
\<close>

lemma fireWeapon_fires:
  assumes "key_space g" and "gameController g" and "shipControl g \<noteq> None"
    and "lastFireTime g = 0 \<or> real_of_int (clock g - lastFireTime g) > fireRate (c_settings c) * 100"
  shows "fireWeapon c g =
           g\<lparr>projectiles := projectiles g @
                [\<lparr>p_position = position g,
                  p_velocity = multiplyScalar (forward (rotation_z g)) (fireSpeed (c_settings c)),
                  p_damage = fireStrength (c_settings c), p_lifetime = 2000\<rparr>],
             lastFireTime := clock g\<rparr>"
  using assms
  by (auto simp add: fireWeapon_def fireProjectile_def createProjectile_def normalize_forward Let_def)

lemma fireWeapon_cooldown:
  assumes "lastFireTime g \<noteq> 0"
    and "real_of_int (clock g - lastFireTime g) \<le> fireRate (c_settings c) * 100"
  shows "fireWeapon c g = g"
  using assms by (simp add: fireWeapon_def Let_def)

text \<open>
  C6. The specification says that with fire intent a projectile is created exactly when
  \<open>now - lastFireTime \<ge> fireRate * 1000\<close> ms. The fire block compares with
  \<open>fireRate * 100\<close>: with the default fire rate of 1.5 s, the last shot at time 1000 and
  the fire key down at time 1200, only 200 of the 1500 ms have passed, yet a projectile is
  created (at the player's position, along the forward vector at the fire speed 10, with
  damage 1 and lifetime 2000).
\<close>

theorem fire_after_a_tenth_of_the_cooldown:
  "key_space ((mountGame 1200 emptyStorage)\<lparr>key_space := True, lastFireTime := 1000\<rparr>)
   \<and> real_of_int (1200 - 1000) < fireRate initialSettings * 1000
   \<and> projectiles (fireWeapon (mountClosure initialSettings)
        ((mountGame 1200 emptyStorage)\<lparr>key_space := True, lastFireTime := 1000\<rparr>))
      = [\<lparr>p_position = Vector3 0 0 0, p_velocity = Vector3 0 10 0, p_damage = 1, p_lifetime = 2000\<rparr>]"
proof -
  have "multiplyScalar (normalize (forward 0)) 10 = Vector3 0 10 0"
    unfolding normalize_forward by (simp add: forward_def multiplyScalar_def Vector3_def)
  then show ?thesis
    by (simp add: session_defs fireWeapon_def fireProjectile_def createProjectile_def)
qed

subsection \<open>Enemies at the bottom of the screen\<close>

text \<open>
  C7, as specified: an enemy that in one tick is hit by a projectile strong enough to
  destroy it and has crossed the bottom line is destroyed by the projectile and its points
  are credited. It is not: the enemy below crosses the line in a frame of 0.1 s with a
  projectile of damage 10 at its centre, and \<open>updateEnemies\<close> credits nothing and takes
  the bottom damage of 20 from the player.
\<close>

theorem bottom_line_before_projectiles:
  "checkCollision (p_position overlappingProjectile)
      (vadd (e_position crossingEnemy) (multiplyScalar (e_velocity crossingEnemy) 0.1)) 0.2 0.8
   \<and> e_health crossingEnemy - p_damage overlappingProjectile \<le> 0
   \<and> score (updateEnemies (mountClosure initialSettings) 0.1
        ((mountGame 0 emptyStorage)\<lparr>enemies := [crossingEnemy], projectiles := [overlappingProjectile]\<rparr>)) = 0
   \<and> playerHealth (updateEnemies (mountClosure initialSettings) 0.1
        ((mountGame 0 emptyStorage)\<lparr>enemies := [crossingEnemy], projectiles := [overlappingProjectile]\<rparr>)) = 80"
  by (simp add: session_defs frame_defs)

lemma damagePlayer_keeps_score:
  "score (damagePlayer c a g) = score g \<and> projectiles (damagePlayer c a g) = projectiles g
   \<and> effects (damagePlayer c a g) = effects g"
  by (simp add: damagePlayer_def loseLife_def setTimeout_def Let_def)

text \<open>
  C7, amended. For every enemy that has crossed the bottom line after its move of the
  tick (\<open>y < -15\<close>), whether or not a projectile would destroy it, the bottom path is
  taken, because the loop body checks the bottom line before the collisions: the enemy is
  removed, the bottom damage of the difficulty goes to \<open>damagePlayer\<close> (unless the
  closure has seen the game end), no points are credited, no explosion is made and no
  projectile is used up.
\<close>

theorem bottom_line_path_taken:
  assumes "vec_y (e_position e) + vec_y (e_velocity e) * deltaTime < - 15"
  shows "stepEnemy c deltaTime e g =
           (None, if \<not> c_gameOver c then damagePlayer c (bottomDamage (difficulty (c_settings c))) g
                  else g)
       \<and> score (snd (stepEnemy c deltaTime e g)) = score g
       \<and> projectiles (snd (stepEnemy c deltaTime e g)) = projectiles g
       \<and> effects (snd (stepEnemy c deltaTime e g)) = effects g"
  using assms
  by (simp add: stepEnemy_def Let_def vadd_def multiplyScalar_def Vector3_def damagePlayer_keeps_score)

theorem bottom_line_path_taken_witness:
  "vec_y (e_position crossingEnemy) + vec_y (e_velocity crossingEnemy) * 0.1 < - 15
   \<and> fst (stepEnemy (mountClosure initialSettings) 0.1 crossingEnemy
        ((mountGame 0 emptyStorage)\<lparr>enemies := [crossingEnemy], projectiles := [overlappingProjectile]\<rparr>))
      = None
   \<and> score (snd (stepEnemy (mountClosure initialSettings) 0.1 crossingEnemy
        ((mountGame 0 emptyStorage)\<lparr>enemies := [crossingEnemy], projectiles := [overlappingProjectile]\<rparr>)))
      = 0
   \<and> projectiles (snd (stepEnemy (mountClosure initialSettings) 0.1 crossingEnemy
        ((mountGame 0 emptyStorage)\<lparr>enemies := [crossingEnemy], projectiles := [overlappingProjectile]\<rparr>)))
      = [overlappingProjectile]"
proof -
  have h: "vec_y (e_position crossingEnemy) + vec_y (e_velocity crossingEnemy) * 0.1 < - 15"
    by (simp add: crossingEnemy_def Vector3_def)
  show ?thesis
    using h bottom_line_path_taken [OF h, of "mountClosure initialSettings"
        "(mountGame 0 emptyStorage)\<lparr>enemies := [crossingEnemy], projectiles := [overlappingProjectile]\<rparr>"]
    by (simp add: mountGame_def damagePlayer_keeps_score)
qed

text \<open>The same for the whole of \<open>updateEnemies\<close> when that enemy is the only one.\<close>

lemma updateEnemies_single_crossing:
  assumes "vec_y (e_position e) + vec_y (e_velocity e) * deltaTime < - 15"
    and "gameController g" and "enemies g = [e]"
  shows "updateEnemies c deltaTime g =
           (if \<not> c_gameOver c then damagePlayer c (bottomDamage (difficulty (c_settings c))) g
            else g)\<lparr>enemies := []\<rparr>"
proof -
  have "stepEnemy c deltaTime e g =
          (None, if \<not> c_gameOver c then damagePlayer c (bottomDamage (difficulty (c_settings c))) g
                 else g)"
    using assms(1) by (simp add: stepEnemy_def Let_def vadd_def multiplyScalar_def Vector3_def)
  then show ?thesis using assms(2,3) by (simp add: updateEnemies_def)
qed

subsection \<open>Spawning\<close>

text \<open>The guard of the spawn timer works for a closure that has seen the pause or the end.\<close>

lemma enemySpawnTimer_guard:
  assumes "c_isPaused c \<or> c_gameOver c"
  shows "enemySpawnTimer c rnd g = g"
  using assms by (auto simp add: enemySpawnTimer_def)

text \<open>
  C8. The specification says that no enemy is spawned while the game is paused or over.
  The callback of the spawn timer tests \<open>isPaused\<close> and \<open>gameOver\<close> of the first
  render, which stay false: after Escape has paused the game, and likewise after the game
  has ended, a firing of the spawn timer still adds an enemy to the empty collection.
\<close>

theorem spawn_while_paused:
  "isPaused (run initialSettings [Escape] (mountGame 0 emptyStorage))
   \<and> enemies (run initialSettings [Escape] (mountGame 0 emptyStorage)) = []
   \<and> length (enemies (run initialSettings [Escape, SpawnTimer (1 / 2)] (mountGame 0 emptyStorage))) = 1
   \<and> gameOver (run hardSettings sixCollisions (mountGame 0 emptyStorage))
   \<and> enemies (run hardSettings sixCollisions (mountGame 0 emptyStorage)) = []
   \<and> length (enemies (run hardSettings (sixCollisions @ [SpawnTimer (1 / 2)]) (mountGame 0 emptyStorage))) = 1"
  by (simp add: session_defs enemySpawnTimer_def spawnEnemy_def)

text \<open>
  C9. When the difficulty is \<open>hard\<close>, every enemy that \<open>spawnEnemy\<close> adds has health 15,
  descends at 3 units per second (velocity \<open>(0, -3, 0)\<close>) and is worth 150 points, and
  the interval of the spawn timer is 1000 ms.
\<close>

theorem hard_difficulty_spawn:
  assumes "difficulty (c_settings c) = Hard" and "gameController g"
  shows "spawnEnemy c rnd g =
           g\<lparr>enemies := enemies g @
               [\<lparr>e_position = Vector3 (rnd * 20 - 10) 20 0, e_velocity = Vector3 0 (- 3) 0,
                 e_health = 15, e_points = 150\<rparr>]\<rparr>
         \<and> spawnInterval (difficulty (c_settings c)) = 1000"
  using assms by (simp add: spawnEnemy_def createEnemy_def Let_def)

theorem hard_difficulty_spawn_witness:
  "difficulty (c_settings (mountClosure hardSettings)) = Hard
   \<and> gameController (mountGame 0 emptyStorage)
   \<and> enemies (spawnEnemy (mountClosure hardSettings) (1 / 2) (mountGame 0 emptyStorage))
       = [\<lparr>e_position = Vector3 0 20 0, e_velocity = Vector3 0 (- 3) 0, e_health = 15, e_points = 150\<rparr>]
   \<and> spawnInterval (difficulty (c_settings (mountClosure hardSettings))) = 1000"
proof -
  have h: "difficulty (c_settings (mountClosure hardSettings)) = Hard"
    "gameController (mountGame 0 emptyStorage)"
    by (simp_all add: mountClosure_def render_def hardSettings_def mountGame_def)
  show ?thesis
    using h hard_difficulty_spawn [OF h, of "1 / 2"] by (simp add: mountGame_def)
qed

subsection \<open>The persisted high score\<close>

lemma persisted_updateHighScore:
  "persistedHighScore (updateHighScore scr now ls) = max (persistedHighScore ls) scr"
  by (simp add: persistedHighScore_def updateHighScore_def saveGameData_def loadGameData_def Let_def
      split: option.splits)

lemma updateHighScores_append:
  "updateHighScores (cs @ ds) ls = updateHighScores ds (updateHighScores cs ls)"
  by (induction cs arbitrary: ls) auto

lemma persisted_updateHighScores_ge:
  "persistedHighScore ls \<le> persistedHighScore (updateHighScores cs ls)"
proof (induction cs arbitrary: ls)
  case Nil
  show ?case by simp
next
  case (Cons a cs)
  obtain scr now where a: "a = (scr, now)" by (cases a)
  have "persistedHighScore ls \<le> persistedHighScore (updateHighScore scr now ls)"
    by (simp add: persisted_updateHighScore)
  also have "\<dots> \<le> persistedHighScore (updateHighScores cs (updateHighScore scr now ls))"
    by (rule Cons.IH)
  finally show ?case by (simp add: a)
qed

lemma updateHighScore_not_higher:
  assumes "scr \<le> persistedHighScore ls"
  shows "highScoreItem (updateHighScore scr now ls) = highScoreItem ls"
  using assms
  by (simp add: persistedHighScore_def updateHighScore_def saveGameData_def Let_def)

text \<open>
  C10. After \<open>updateHighScore(s)\<close> the persisted high score is the maximum of the
  previously persisted one and \<open>s\<close>; along any sequence of calls it never decreases (a
  longer sequence ends with a high score at least that of each of its prefixes); and a call
  with \<open>s\<close> not above the stored value leaves the stored high score, and the separate
  \<open>highScore\<close> item, unchanged.
\<close>

theorem updateHighScore_max:
  "persistedHighScore (updateHighScore scr now ls) = max (persistedHighScore ls) scr
   \<and> persistedHighScore (updateHighScores cs ls0) \<le> persistedHighScore (updateHighScores (cs @ ds) ls0)
   \<and> (scr \<le> persistedHighScore ls \<longrightarrow>
        persistedHighScore (updateHighScore scr now ls) = persistedHighScore ls
        \<and> highScoreItem (updateHighScore scr now ls) = highScoreItem ls)"
  by (simp add: persisted_updateHighScore updateHighScores_append persisted_updateHighScores_ge
      updateHighScore_not_higher)

theorem updateHighScore_max_witness:
  "persistedHighScore (updateHighScore 300 2000 (updateHighScore 500 1000 emptyStorage)) = 500
   \<and> 300 \<le> persistedHighScore (updateHighScore 500 1000 emptyStorage)
   \<and> persistedHighScore (updateHighScores [(500, 1000)] emptyStorage)
        \<le> persistedHighScore (updateHighScores ([(500, 1000)] @ [(300, 2000), (700, 3000)]) emptyStorage)
   \<and> highScoreItem (updateHighScore 300 2000 (updateHighScore 500 1000 emptyStorage)) = Some 500"
  using updateHighScore_max [of 300 2000 "updateHighScore 500 1000 emptyStorage" "[(500, 1000)]"
      emptyStorage "[(300, 2000), (700, 3000)]"]
  by (simp add: persistedHighScore_def updateHighScore_def saveGameData_def loadGameData_def Let_def
      emptyStorage_def defaultGameData_def)

end
